theory Spec2Isabelle
  imports Main "HOL-Library.Word"
begin

unbundle bit_operations_syntax

section \<open>Python values and exceptions\<close>

text \<open>
  \<open>syslog_handler.py\<close> is dynamically typed: \<open>encodePriority\<close> tests its arguments with
  \<open>isinstance(_, str)\<close>, and \<open>emit\<close> is annotated with an integer level while the keys of
  \<open>priority_map\<close> are strings. The values that reach those places are modelled as a tagged
  union of Python's unbounded integers and strings. A string is the sequence of its UTF-8
  bytes, so \<open>str.encode('utf-8')\<close> is the identity on the model.
\<close>

datatype pyval = PInt int | PStr string

text \<open>
  An exception carries the names of the classes it is an instance of (its own class first,
  then its base classes) and its argument. \<open>except C\<close> catches an exception exactly when it
  is an instance of \<open>C\<close>.
\<close>

datatype exn = Exn (classes: "string list") (detail: string)

definition isinstance :: "exn \<Rightarrow> string \<Rightarrow> bool" where
  "isinstance e c = (c \<in> set (classes e))"

definition KeyError :: "string \<Rightarrow> exn" where
  "KeyError k = Exn [''KeyError'', ''LookupError'', ''Exception'', ''BaseException''] k"

definition RuntimeError :: "string \<Rightarrow> exn" where
  "RuntimeError d = Exn [''RuntimeError'', ''Exception'', ''BaseException''] d"

definition OSError :: "string \<Rightarrow> exn" where
  "OSError d = Exn [''OSError'', ''Exception'', ''BaseException''] d"

definition TypeError :: "string \<Rightarrow> exn" where
  "TypeError d = Exn [''TypeError'', ''Exception'', ''BaseException''] d"

section \<open>Class constants of \<open>SysLogHandler\<close>\<close>

definition SYSLOG_UDP_PORT :: int where "SYSLOG_UDP_PORT = 514"
definition SYSLOG_TCP_PORT :: int where "SYSLOG_TCP_PORT = 514"

definition LOG_EMERG :: int where "LOG_EMERG = 0"
definition LOG_ALERT :: int where "LOG_ALERT = 1"
definition LOG_CRIT :: int where "LOG_CRIT = 2"
definition LOG_ERR :: int where "LOG_ERR = 3"
definition LOG_WARNING :: int where "LOG_WARNING = 4"
definition LOG_NOTICE :: int where "LOG_NOTICE = 5"
definition LOG_INFO :: int where "LOG_INFO = 6"
definition LOG_DEBUG :: int where "LOG_DEBUG = 7"

definition LOG_KERN :: int where "LOG_KERN = 0"
definition LOG_USER :: int where "LOG_USER = 1"
definition LOG_MAIL :: int where "LOG_MAIL = 2"
definition LOG_DAEMON :: int where "LOG_DAEMON = 3"
definition LOG_AUTH :: int where "LOG_AUTH = 4"
definition LOG_SYSLOG :: int where "LOG_SYSLOG = 5"
definition LOG_LPR :: int where "LOG_LPR = 6"
definition LOG_NEWS :: int where "LOG_NEWS = 7"
definition LOG_UUCP :: int where "LOG_UUCP = 8"
definition LOG_CRON :: int where "LOG_CRON = 9"
definition LOG_AUTHPRIV :: int where "LOG_AUTHPRIV = 10"
definition LOG_FTP :: int where "LOG_FTP = 11"
definition LOG_LOCAL0 :: int where "LOG_LOCAL0 = 16"
definition LOG_LOCAL1 :: int where "LOG_LOCAL1 = 17"
definition LOG_LOCAL2 :: int where "LOG_LOCAL2 = 18"
definition LOG_LOCAL3 :: int where "LOG_LOCAL3 = 19"
definition LOG_LOCAL4 :: int where "LOG_LOCAL4 = 20"
definition LOG_LOCAL5 :: int where "LOG_LOCAL5 = 21"
definition LOG_LOCAL6 :: int where "LOG_LOCAL6 = 22"
definition LOG_LOCAL7 :: int where "LOG_LOCAL7 = 23"

lemmas severity_defs =
  LOG_EMERG_def LOG_ALERT_def LOG_CRIT_def LOG_ERR_def LOG_WARNING_def LOG_NOTICE_def
  LOG_INFO_def LOG_DEBUG_def

lemmas facility_defs =
  LOG_KERN_def LOG_USER_def LOG_MAIL_def LOG_DAEMON_def LOG_AUTH_def LOG_SYSLOG_def
  LOG_LPR_def LOG_NEWS_def LOG_UUCP_def LOG_CRON_def LOG_AUTHPRIV_def LOG_FTP_def
  LOG_LOCAL0_def LOG_LOCAL1_def LOG_LOCAL2_def LOG_LOCAL3_def LOG_LOCAL4_def LOG_LOCAL5_def
  LOG_LOCAL6_def LOG_LOCAL7_def

text \<open>The three dictionaries, in the order the source writes their entries.\<close>

definition priority_names :: "(string \<times> int) list" where
  "priority_names =
    [(''alert'', LOG_ALERT),
     (''crit'', LOG_CRIT),
     (''critical'', LOG_CRIT),
     (''debug'', LOG_DEBUG),
     (''emerg'', LOG_EMERG),
     (''err'', LOG_ERR),
     (''error'', LOG_ERR),
     (''info'', LOG_INFO),
     (''notice'', LOG_NOTICE),
     (''panic'', LOG_EMERG),
     (''warn'', LOG_WARNING),
     (''warning'', LOG_WARNING)]"

definition facility_names :: "(string \<times> int) list" where
  "facility_names =
    [(''auth'', LOG_AUTH),
     (''authpriv'', LOG_AUTHPRIV),
     (''cron'', LOG_CRON),
     (''daemon'', LOG_DAEMON),
     (''ftp'', LOG_FTP),
     (''kern'', LOG_KERN),
     (''lpr'', LOG_LPR),
     (''mail'', LOG_MAIL),
     (''news'', LOG_NEWS),
     (''security'', LOG_AUTH),
     (''syslog'', LOG_SYSLOG),
     (''user'', LOG_USER),
     (''uucp'', LOG_UUCP),
     (''local0'', LOG_LOCAL0),
     (''local1'', LOG_LOCAL1),
     (''local2'', LOG_LOCAL2),
     (''local3'', LOG_LOCAL3),
     (''local4'', LOG_LOCAL4),
     (''local5'', LOG_LOCAL5),
     (''local6'', LOG_LOCAL6),
     (''local7'', LOG_LOCAL7)]"

text \<open>
  \<open>priority_map\<close> is keyed by Python values: \<open>mapPriority\<close> hands \<open>dict.get\<close> whatever
  it was given, and an integer key is never equal to a string key.
\<close>

definition priority_map :: "(pyval \<times> string) list" where
  "priority_map =
    [(PStr ''DEBUG'', ''debug''),
     (PStr ''INFO'', ''info''),
     (PStr ''WARNING'', ''warning''),
     (PStr ''ERROR'', ''error''),
     (PStr ''CRITICAL'', ''critical'')]"

section \<open>\<open>mapPriority\<close> and \<open>encodePriority\<close>\<close>

text \<open>\<open>return self.priority_map.get(levelName, "warning")\<close>\<close>

definition mapPriority :: "pyval \<Rightarrow> string" where
  "mapPriority levelName =
    (case map_of priority_map levelName of Some v \<Rightarrow> v | None \<Rightarrow> ''warning'')"

text \<open>
  \<open>d[k]\<close> on a dictionary raises \<open>KeyError(k)\<close> when the key is missing.
\<close>

definition subscript :: "(string \<times> int) list \<Rightarrow> string \<Rightarrow> exn + int" where
  "subscript d k = (case map_of d k of None \<Rightarrow> Inl (KeyError k) | Some v \<Rightarrow> Inr v)"

text \<open>
  The two \<open>isinstance(_, str)\<close> tests run in the order of the source, the facility first,
  so a missing facility keyword is the error that is raised when both are missing.
  \<open>(facility << 3) | priority\<close> is on Python's unbounded integers.
\<close>

definition encodePriority :: "pyval \<Rightarrow> pyval \<Rightarrow> exn + int" where
  "encodePriority facility priority =
    (case (case facility of PStr s \<Rightarrow> subscript facility_names s | PInt n \<Rightarrow> Inr n) of
       Inl e \<Rightarrow> Inl e
     | Inr f \<Rightarrow>
        (case (case priority of PStr s \<Rightarrow> subscript priority_names s | PInt n \<Rightarrow> Inr n) of
           Inl e \<Rightarrow> Inl e
         | Inr p \<Rightarrow> Inr (push_bit 3 f OR p)))"

section \<open>Rendering and lowercasing\<close>

text \<open>
  \<open>'<%d>' % n\<close> writes \<open>n\<close> in decimal, with a minus sign when it is negative.
\<close>

definition digit_char :: "nat \<Rightarrow> char" where
  "digit_char d = ''0123456789'' ! d"

fun digits :: "nat \<Rightarrow> string" where
  "digits n = (if n < 10 then [digit_char n] else digits (n div 10) @ [digit_char (n mod 10)])"

declare digits.simps [simp del]

definition decimal :: "int \<Rightarrow> string" where
  "decimal n = (if n < 0 then CHR ''-'' # digits (nat (- n)) else digits (nat n))"

text \<open>
  \<open>str.lower()\<close>: the letters \<open>A\<close> to \<open>Z\<close> go to \<open>a\<close> to \<open>z\<close>, every other byte is kept.
\<close>

definition lower_char :: "char \<Rightarrow> char" where
  "lower_char c =
    (case map_of (zip ''ABCDEFGHIJKLMNOPQRSTUVWXYZ'' ''abcdefghijklmnopqrstuvwxyz'') c of
       Some l \<Rightarrow> l
     | None \<Rightarrow> c)"

definition lower :: "string \<Rightarrow> string" where
  "lower s = map lower_char s"

section \<open>The socket layer and the console\<close>

text \<open>
  \<open>adafruit_esp32spi_socket\<close> is imported, not part of the repository. The handler uses
  four of its entry points: \<open>socket(type=...)\<close> and \<open>getaddrinfo\<close> in the constructor,
  and \<open>close\<close>, \<open>connect\<close> and \<open>send\<close> on the one socket in \<open>emit\<close>. What each call does
  on a given occasion (return, or raise some exception) is a parameter of the model. So is
  the outcome of \<open>traceback.print_exception\<close>, which comes from the platform's library as
  well. The world records every call made on the socket, the logical connection state, and
  what was written to the console by \<open>print\<close> and \<open>traceback.print_exception\<close>.
\<close>

datatype socktype = SOCK_STREAM | SOCK_DGRAM

datatype conntype = TCP_MODE | UDP_MODE

type_synonym sockaddr = "string \<times> int"

datatype conn_state = Idle | Connected

datatype sock_call = SockClose | SockConnect sockaddr conntype | SockSend string

datatype out_event = Print string | PrintException exn

record world =
  console :: "out_event list"
  conn :: conn_state
  calls :: "sock_call list"

text \<open>
  The outcome of each library call during one \<open>emit\<close>: the three socket calls, and the
  call of \<open>traceback.print_exception\<close> that the exception handler makes.
\<close>

record sock_env =
  close_result :: "exn option"
  connect_result :: "exn option"
  send_result :: "exn option"
  print_exception_result :: "exn option"

text \<open>
  A call that raises leaves the connection state as it was; a \<open>close\<close> that returns leaves
  the socket idle, a \<open>connect\<close> that returns leaves it connected, \<open>send\<close> does not change it.
\<close>

definition sock_close :: "sock_env \<Rightarrow> world \<Rightarrow> exn option \<times> world" where
  "sock_close env w =
    (let w' = w\<lparr>calls := calls w @ [SockClose]\<rparr>
     in case close_result env of
          Some e \<Rightarrow> (Some e, w')
        | None \<Rightarrow> (None, w'\<lparr>conn := Idle\<rparr>))"

definition sock_connect :: "sock_env \<Rightarrow> sockaddr \<Rightarrow> conntype \<Rightarrow> world \<Rightarrow> exn option \<times> world" where
  "sock_connect env a ct w =
    (let w' = w\<lparr>calls := calls w @ [SockConnect a ct]\<rparr>
     in case connect_result env of
          Some e \<Rightarrow> (Some e, w')
        | None \<Rightarrow> (None, w'\<lparr>conn := Connected\<rparr>))"

definition sock_send :: "sock_env \<Rightarrow> string \<Rightarrow> world \<Rightarrow> exn option \<times> world" where
  "sock_send env bytes w =
    (let w' = w\<lparr>calls := calls w @ [SockSend bytes]\<rparr>
     in case send_result env of
          Some e \<Rightarrow> (Some e, w')
        | None \<Rightarrow> (None, w'))"

definition print :: "string \<Rightarrow> world \<Rightarrow> world" where
  "print s w = w\<lparr>console := console w @ [Print s]\<rparr>"

text \<open>
  The handler calls \<open>traceback.print_exception(etype=type(e), value=e, tb=e.__traceback__)\<close>,
  every argument by keyword. A library whose \<open>print_exception\<close> names its first parameter
  \<open>etype\<close> (CPython before 3.10) accepts the call and writes the traceback. A library
  whose first parameter is the positional-only \<open>exc\<close> (CPython from 3.10) rejects the call
  with \<open>TypeError\<close> while binding the arguments, before anything is written. A call that
  raises writes nothing.
\<close>

definition print_exception :: "sock_env \<Rightarrow> exn \<Rightarrow> world \<Rightarrow> exn option \<times> world" where
  "print_exception env e w =
    (case print_exception_result env of
       Some t \<Rightarrow> (Some t, w)
     | None \<Rightarrow> (None, w\<lparr>console := console w @ [PrintException e]\<rparr>))"

section \<open>The handler\<close>

text \<open>
  The instance attributes set by \<open>__init__\<close>, and the two class attributes \<open>ident\<close> and
  \<open>append_nul\<close> that \<open>emit\<close> reads through \<open>self\<close>.
\<close>

record handler =
  address :: string
  port :: int
  facility :: pyval
  socktype :: socktype
  conntype :: conntype
  socketaddr_out :: sockaddr
  ident :: string
  append_nul :: bool

text \<open>
  The two library calls of the constructor: creating the socket, and
  \<open>getaddrinfo(address, port)[0][4]\<close>.
\<close>

record init_env =
  socket_new :: "socktype \<Rightarrow> exn option"
  getaddrinfo :: "string \<Rightarrow> int \<Rightarrow> exn + sockaddr"

text \<open>
  \<open>__init__(self, address, port=SYSLOG_UDP_PORT, facility=LOG_USER, protocol=None)\<close>:
  an argument left out is \<open>None\<close> here and takes the default of the signature.
\<close>

definition init ::
  "init_env \<Rightarrow> string \<Rightarrow> int option \<Rightarrow> pyval option \<Rightarrow> string option \<Rightarrow> exn + handler" where
  "init ienv addr port_arg facility_arg protocol =
    (let p = (case port_arg of None \<Rightarrow> SYSLOG_UDP_PORT | Some n \<Rightarrow> n);
         fac = (case facility_arg of None \<Rightarrow> PInt LOG_USER | Some v \<Rightarrow> v);
         mode = (case protocol of
                   None \<Rightarrow> (SOCK_DGRAM, UDP_MODE)
                 | Some pr \<Rightarrow>
                     if lower pr = ''tcp'' then (SOCK_STREAM, TCP_MODE)
                     else (SOCK_DGRAM, UDP_MODE))
     in case socket_new ienv (fst mode) of
          Some e \<Rightarrow> Inl e
        | None \<Rightarrow>
           (case getaddrinfo ienv addr p of
              Inl e \<Rightarrow> Inl e
            | Inr sa \<Rightarrow>
               Inr \<lparr>address = addr, port = p, facility = fac,
                    socktype = fst mode, conntype = snd mode,
                    socketaddr_out = sa, ident = [], append_nul = True\<rparr>))"

text \<open>\<open>_close\<close> and \<open>_connect\<close>.\<close>

definition handler_close :: "handler \<Rightarrow> sock_env \<Rightarrow> world \<Rightarrow> exn option \<times> world" where
  "handler_close h env w = sock_close env w"

definition handler_connect :: "handler \<Rightarrow> sock_env \<Rightarrow> world \<Rightarrow> exn option \<times> world" where
  "handler_connect h env w = sock_connect env (socketaddr_out h) (conntype h) w"

text \<open>
  \<open>format\<close> delegates to the base class \<open>LoggingHandler\<close>, which is imported: the
  formatter is a parameter, and it may raise.
\<close>

type_synonym formatter = "pyval \<Rightarrow> string \<Rightarrow> exn + string"

definition handler_format :: "formatter \<Rightarrow> pyval \<Rightarrow> string \<Rightarrow> exn + string" where
  "handler_format fmt log_level message = fmt log_level message"

text \<open>
  The body of the \<open>try\<close> in \<open>emit\<close>: close, connect, send, stopping at the first call
  that raises.
\<close>

definition try_body :: "handler \<Rightarrow> sock_env \<Rightarrow> string \<Rightarrow> world \<Rightarrow> exn option \<times> world" where
  "try_body h env msg w =
    (case handler_close h env w of
       (Some e, w1) \<Rightarrow> (Some e, w1)
     | (None, w1) \<Rightarrow>
        (case handler_connect h env w1 of
           (Some e, w2) \<Rightarrow> (Some e, w2)
         | (None, w2) \<Rightarrow> sock_send env msg w2))"

text \<open>
  The \<open>try\<close> with its handler \<open>except RuntimeError as e\<close>: two \<open>print\<close> calls and the
  call of \<open>traceback.print_exception\<close>. When that call returns, the statement is over and
  \<open>emit\<close> returns; when it raises, its exception leaves the handler and \<open>emit\<close>.
\<close>

definition transport :: "handler \<Rightarrow> sock_env \<Rightarrow> string \<Rightarrow> string \<Rightarrow> world \<Rightarrow> exn option \<times> world" where
  "transport h env message msg w =
    (case try_body h env msg w of
       (None, w') \<Rightarrow> (None, w')
     | (Some e, w') \<Rightarrow>
        if isinstance e ''RuntimeError''
        then print_exception env e
               (print (''With message: '' @ message)
                 (print ''--- LOGGING ERROR ---'' w'))
        else (Some e, w'))"

text \<open>
  \<open>emit\<close>. The result is the exception that leaves \<open>emit\<close>, if any, and the world after
  the call.
\<close>

definition emit ::
  "handler \<Rightarrow> formatter \<Rightarrow> sock_env \<Rightarrow> world \<Rightarrow> pyval \<Rightarrow> string \<Rightarrow> exn option \<times> world" where
  "emit h fmt env w log_level message =
    (let w1 = print (''Received message: '' @ message) w
     in case handler_format fmt log_level message of
          Inl e \<Rightarrow> (Some e, w1)
        | Inr formatted \<Rightarrow>
           (let w2 = print (''Formatted message: '' @ formatted) w1;
                msg1 = (if ident h \<noteq> [] then ident h @ formatted else formatted);
                msg2 = (if append_nul h then msg1 @ [CHR 0x00] else msg1)
            in case encodePriority (facility h) (PStr (mapPriority log_level)) of
                 Inl e \<Rightarrow> (Some e, w2)
               | Inr n \<Rightarrow>
                  (let prio = ''<'' @ decimal n @ ''>'';
                       msg = prio @ msg2
                   in transport h env message msg w2)))"

section \<open>Example configurations\<close>

text \<open>
  A handler as \<open>__init__\<close> builds it for a UDP collector, with \<open>ident\<close> set by the
  application; a world with nothing printed and no connection; libraries on which every
  call returns; a formatter that hands the message back unchanged; a resolver that always
  answers; the error with which a \<open>print_exception\<close> whose first parameter is
  positional-only answers the keyword \<open>etype\<close>.
\<close>

definition example_handler :: handler where
  "example_handler =
    \<lparr>address = ''10.0.0.1'', port = 514, facility = PInt LOG_USER,
     socktype = SOCK_DGRAM, conntype = UDP_MODE,
     socketaddr_out = (''10.0.0.1'', 514), ident = ''host1 '', append_nul = True\<rparr>"

definition idle_world :: world where
  "idle_world = \<lparr>console = [], conn = Idle, calls = []\<rparr>"

definition all_ok :: sock_env where
  "all_ok = \<lparr>close_result = None, connect_result = None, send_result = None,
             print_exception_result = None\<rparr>"

definition etype_rejected :: exn where
  "etype_rejected = TypeError ''print_exception() got an unexpected keyword argument etype''"

definition identity_formatter :: formatter where
  "identity_formatter log_level message = Inr message"

definition resolver_ok :: init_env where
  "resolver_ok = \<lparr>socket_new = (\<lambda>t. None), getaddrinfo = (\<lambda>a p. Inr (a, p))\<rparr>"

definition udp_handler :: handler where
  "udp_handler =
    \<lparr>address = ''10.0.0.1'', port = 514, facility = PInt 1,
     socktype = SOCK_DGRAM, conntype = UDP_MODE,
     socketaddr_out = (''10.0.0.1'', 514), ident = [], append_nul = True\<rparr>"

definition tcp_handler :: handler where
  "tcp_handler =
    \<lparr>address = ''10.0.0.1'', port = 514, facility = PInt 1,
     socktype = SOCK_STREAM, conntype = TCP_MODE,
     socketaddr_out = (''10.0.0.1'', 514), ident = [], append_nul = True\<rparr>"

section \<open>Helper facts\<close>

text \<open>
  No dictionary of the source repeats a key, so looking a key up in the list of entries
  is the dictionary lookup.
\<close>

lemma dict_keys_distinct:
  "distinct (map fst priority_names)" "distinct (map fst facility_names)" "distinct (map fst priority_map)"
  by (simp_all add: priority_names_def facility_names_def priority_map_def)

lemmas example_defs = example_handler_def idle_world_def all_ok_def identity_formatter_def

lemmas sock_defs = try_body_def handler_close_def handler_connect_def
  sock_close_def sock_connect_def sock_send_def

lemma shift_or_eq_add:
  fixes f s :: int
  assumes "0 \<le> s" and "s < 8"
  shows "push_bit 3 f OR s = f * 8 + s"
proof -
  have low: "take_bit 3 s = s"
    using assms by (simp add: take_bit_int_eq_self)
  have "push_bit 3 f AND take_bit 3 s = 0"
    by (rule bit_eqI) (auto simp add: bit_and_iff bit_push_bit_iff bit_take_bit_iff)
  then have "push_bit 3 f AND s = 0"
    by (simp add: low)
  then have "push_bit 3 f + s = push_bit 3 f OR s"
    by (rule disjunctive_add_eq_or)
  then show ?thesis
    by (simp add: push_bit_eq_mult)
qed

lemma decompose_high:
  fixes f s :: int
  assumes "0 \<le> s" and "s < 8"
  shows "drop_bit 3 (f * 8 + s) = f"
  using assms by (simp add: drop_bit_eq_div)

lemma decompose_low:
  fixes f s :: int
  assumes "0 \<le> s" and "s < 8"
  shows "(f * 8 + s) AND 7 = s"
proof -
  have "(f * 8 + s) AND mask 3 = (f * 8 + s) mod 2 ^ 3"
    by (simp only: take_bit_eq_mask [symmetric] take_bit_eq_mod)
  moreover have "mask 3 = (7 :: int)"
    by (simp add: mask_eq_exp_minus_1)
  ultimately show ?thesis
    using assms by simp
qed

lemma decimal_14: "decimal 14 = ''14''"
  by (simp add: decimal_def digits.simps digit_char_def)

lemma mapPriority_int: "mapPriority (PInt n) = ''warning''"
  by (simp add: mapPriority_def priority_map_def)

lemma priority_names_warning: "map_of priority_names ''warning'' = Some LOG_WARNING"
  by (simp add: priority_names_def)

lemma priority_names_info: "map_of priority_names ''info'' = Some LOG_INFO"
  by (simp add: priority_names_def)

lemma print_fields:
  "calls (print s w) = calls w" "conn (print s w) = conn w"
  "console (print s w) = console w @ [Print s]"
  by (simp_all add: print_def)

text \<open>
  When the formatter and the priority encoding return, \<open>emit\<close> reaches the \<open>try\<close>
  statement with the framed payload.
\<close>

lemma emit_reaches_transport:
  assumes "fmt log_level message = Inr formatted"
    and "encodePriority (facility h) (PStr (mapPriority log_level)) = Inr n"
  shows "emit h fmt env w log_level message =
         transport h env message
           (''<'' @ decimal n @ ''>'' @ (if ident h \<noteq> [] then ident h else []) @ formatted
              @ (if append_nul h then [CHR 0x00] else []))
           (print (''Formatted message: '' @ formatted) (print (''Received message: '' @ message) w))"
  using assms by (simp add: emit_def handler_format_def Let_def)

lemma try_body_calls:
  assumes "close_result env = None" and "connect_result env = None"
  shows "calls (snd (try_body h env msg w)) =
         calls w @ [SockClose, SockConnect (socketaddr_out h) (conntype h), SockSend msg]"
    and "conn (snd (try_body h env msg w)) = Connected"
    and "console (snd (try_body h env msg w)) = console w"
    and "fst (try_body h env msg w) = send_result env"
  using assms by (simp_all add: sock_defs Let_def split: option.splits)

lemma transport_calls:
  "calls (snd (transport h env message msg w)) = calls (snd (try_body h env msg w))"
  and transport_conn: "conn (snd (transport h env message msg w)) = conn (snd (try_body h env msg w))"
  by (simp_all add: transport_def print_def print_exception_def split: prod.splits option.splits)

lemma transport_result:
  "fst (transport h env message msg w) =
    (case fst (try_body h env msg w) of None \<Rightarrow> None
     | Some e \<Rightarrow> if isinstance e ''RuntimeError'' then print_exception_result env else Some e)"
  by (simp add: transport_def print_exception_def split: prod.splits option.splits)

lemma transport_console:
  "console (snd (transport h env message msg w)) =
    (case fst (try_body h env msg w) of None \<Rightarrow> console (snd (try_body h env msg w))
     | Some e \<Rightarrow>
        if isinstance e ''RuntimeError''
        then console (snd (try_body h env msg w))
             @ [Print ''--- LOGGING ERROR ---'', Print (''With message: '' @ message)]
             @ (case print_exception_result env of None \<Rightarrow> [PrintException e] | Some t \<Rightarrow> [])
        else console (snd (try_body h env msg w)))"
  by (simp add: transport_def print_def print_exception_def split: prod.splits option.splits)

lemma try_body_console: "console (snd (try_body h env msg w)) = console w"
  by (simp add: sock_defs Let_def split: option.splits)

lemma try_body_result:
  "fst (try_body h env msg w) =
    (case close_result env of Some e \<Rightarrow> Some e
     | None \<Rightarrow> (case connect_result env of Some e \<Rightarrow> Some e | None \<Rightarrow> send_result env))"
  by (simp add: sock_defs Let_def split: option.splits)

lemma try_body_conn:
  "conn (snd (try_body h env msg w)) =
    (case close_result env of Some e \<Rightarrow> conn w
     | None \<Rightarrow> (case connect_result env of Some e \<Rightarrow> Idle | None \<Rightarrow> Connected))"
  by (simp add: sock_defs Let_def split: option.splits)

lemma example_reaches:
  "identity_formatter (PStr ''INFO'') ''hello'' = Inr ''hello''"
  "encodePriority (facility example_handler) (PStr (mapPriority (PStr ''INFO''))) = Inr 14"
  by (simp_all add: identity_formatter_def example_handler_def encodePriority_def subscript_def
      mapPriority_def priority_map_def priority_names_def LOG_USER_def LOG_INFO_def)

text \<open>
  \<open>protocol.lower() == 'tcp'\<close> holds for the eight spellings of \<open>tcp\<close> in upper and
  lower case, and for no other string.
\<close>

lemma lower_char_t: "lower_char c = CHR ''t'' \<longleftrightarrow> c = CHR ''t'' \<or> c = CHR ''T''"
  by (auto simp add: lower_char_def split: if_splits)
lemma lower_char_c: "lower_char c = CHR ''c'' \<longleftrightarrow> c = CHR ''c'' \<or> c = CHR ''C''"
  by (auto simp add: lower_char_def split: if_splits)
lemma lower_char_p: "lower_char c = CHR ''p'' \<longleftrightarrow> c = CHR ''p'' \<or> c = CHR ''P''"
  by (auto simp add: lower_char_def split: if_splits)

lemma lower_tcp_iff:
  "lower p = ''tcp'' \<longleftrightarrow>
     p \<in> {''tcp'', ''tcP'', ''tCp'', ''tCP'', ''Tcp'', ''TcP'', ''TCp'', ''TCP''}"
proof -
  have "lower p = ''tcp'' \<longleftrightarrow>
        (\<exists>a b c. p = [a, b, c] \<and> lower_char a = CHR ''t'' \<and> lower_char b = CHR ''c'' \<and> lower_char c = CHR ''p'')"
    by (auto simp add: lower_def map_eq_Cons_conv)
  also have "\<dots> \<longleftrightarrow> p \<in> {''tcp'', ''tcP'', ''tCp'', ''tCP'', ''Tcp'', ''TcP'', ''TCp'', ''TCP''}"
    unfolding lower_char_t lower_char_c lower_char_p by auto
  finally show ?thesis .
qed

text \<open>The constructor returns a handler whenever its two library calls return.\<close>

lemma init_succeeds:
  assumes "\<And>t. socket_new ienv t = None"
    and "\<And>p. getaddrinfo ienv addr p = Inr (sa p)"
  shows "\<exists>h. init ienv addr port_arg facility_arg protocol = Inr h"
  using assms by (simp add: init_def Let_def)

section \<open>The payload of \<open>emit\<close>\<close>

text \<open>
  C1. With \<open>ident = "host1 "\<close>, \<open>append_nul\<close> set, facility \<open>LOG_USER\<close> (1) and the
  identity formatter, \<open>emit\<close> with a level that \<open>mapPriority\<close> takes to \<open>info\<close> and the
  message \<open>hello\<close> hands the socket exactly the bytes \<open><14>host1 hello\<close> followed by
  one NUL byte: the header, then the ident, the message and the terminator, with nothing
  in between. The socket sees close, connect, and one send of those bytes.
\<close>

theorem emit_payload_example:
  assumes "ident h = ''host1 ''" and "append_nul h" and "facility h = PInt LOG_USER"
    and "mapPriority log_level = ''info''"
    and "close_result env = None" and "connect_result env = None"
  shows "calls (snd (emit h identity_formatter env w log_level ''hello'')) =
         calls w @ [SockClose, SockConnect (socketaddr_out h) (conntype h),
                    SockSend (''<14>host1 hello'' @ [CHR 0x00])]"
proof -
  have enc: "encodePriority (facility h) (PStr (mapPriority log_level)) = Inr 14"
    using assms(3,4)
    by (simp add: encodePriority_def subscript_def priority_names_info LOG_USER_def LOG_INFO_def)
  have fmt: "identity_formatter log_level ''hello'' = Inr ''hello''"
    by (simp add: identity_formatter_def)
  show ?thesis
    using assms(1,2)
    by (simp add: emit_reaches_transport [where fmt = identity_formatter, OF fmt enc] transport_calls
        try_body_calls(1) [OF assms(5,6)] decimal_14 print_fields)
qed

theorem emit_payload_example_witness:
  "calls (snd (emit example_handler identity_formatter all_ok idle_world (PStr ''INFO'') ''hello'')) =
     [SockClose, SockConnect (''10.0.0.1'', 514) UDP_MODE, SockSend (''<14>host1 hello'' @ [CHR 0x00])]"
proof -
  have "mapPriority (PStr ''INFO'') = ''info''"
    by (simp add: mapPriority_def priority_map_def)
  then show ?thesis
    using emit_payload_example [of example_handler "PStr ''INFO''" all_ok idle_world]
    by (simp add: example_defs)
qed

section \<open>Priority encoding\<close>

text \<open>
  C2. For every integer facility from 0 to 23 and every integer severity from 0 to 7,
  \<open>encodePriority\<close> returns \<open>facility * 8 + severity\<close>, and splitting that value with
  \<open>value >> 3\<close> and \<open>value & 7\<close> gives the facility and the severity back.
\<close>

theorem encodePriority_roundtrip:
  assumes "0 \<le> f" and "f \<le> 23" and "0 \<le> s" and "s \<le> 7"
  shows "encodePriority (PInt f) (PInt s) = Inr (f * 8 + s)
         \<and> drop_bit 3 (f * 8 + s) = f
         \<and> (f * 8 + s) AND 7 = s"
proof -
  have s8: "s < 8" using assms(4) by simp
  have "encodePriority (PInt f) (PInt s) = Inr (push_bit 3 f OR s)"
    by (simp add: encodePriority_def)
  then have "encodePriority (PInt f) (PInt s) = Inr (f * 8 + s)"
    by (simp add: shift_or_eq_add [OF assms(3) s8])
  then show ?thesis
    by (simp add: decompose_high [OF assms(3) s8] decompose_low [OF assms(3) s8])
qed

theorem encodePriority_roundtrip_witness:
  "encodePriority (PInt 23) (PInt 7) = Inr 191
   \<and> drop_bit 3 (191 :: int) = 23 \<and> (191 :: int) AND 7 = 7"
  using encodePriority_roundtrip [of 23 7] by simp

text \<open>
  C3. For every integer \<open>log_level\<close>, \<open>mapPriority\<close> answers \<open>warning\<close>, because the keys
  of \<open>priority_map\<close> are level names; the priority that \<open>emit\<close> encodes is therefore
  \<open>(facility << 3) | 4\<close> whatever the level, and that is the number in the header of the
  bytes sent. The facility may be an integer or a keyword of \<open>facility_names\<close>.
\<close>

theorem emit_integer_level_is_warning:
  assumes "facility h = PInt f \<or> (\<exists>k. facility h = PStr k \<and> map_of facility_names k = Some f)"
    and "fmt (PInt n) message = Inr formatted"
    and "close_result env = None" and "connect_result env = None"
  shows "mapPriority (PInt n) = ''warning''
         \<and> encodePriority (facility h) (PStr (mapPriority (PInt n)))
             = Inr (push_bit 3 f OR LOG_WARNING)
         \<and> calls (snd (emit h fmt env w (PInt n) message)) =
             calls w @ [SockClose, SockConnect (socketaddr_out h) (conntype h),
                        SockSend (''<'' @ decimal (push_bit 3 f OR 4) @ ''>''
                                  @ (if ident h \<noteq> [] then ident h else []) @ formatted
                                  @ (if append_nul h then [CHR 0x00] else []))]"
proof -
  have lvl: "mapPriority (PInt n) = ''warning''"
    by (rule mapPriority_int)
  have enc: "encodePriority (facility h) (PStr (mapPriority (PInt n))) = Inr (push_bit 3 f OR 4)"
    using assms(1)
    by (auto simp add: lvl encodePriority_def subscript_def priority_names_warning LOG_WARNING_def)
  have "calls (snd (emit h fmt env w (PInt n) message)) =
         calls w @ [SockClose, SockConnect (socketaddr_out h) (conntype h),
                    SockSend (''<'' @ decimal (push_bit 3 f OR 4) @ ''>''
                              @ (if ident h \<noteq> [] then ident h else []) @ formatted
                              @ (if append_nul h then [CHR 0x00] else []))]"
    by (simp only: emit_reaches_transport [where fmt = fmt, OF assms(2) enc] transport_calls
        try_body_calls(1) [OF assms(3,4)] print_fields)
  with lvl enc show ?thesis
    by (simp add: LOG_WARNING_def)
qed

theorem emit_integer_level_is_warning_witness:
  "mapPriority (PInt 20) = ''warning''
   \<and> encodePriority (facility example_handler) (PStr (mapPriority (PInt 20))) = Inr 12
   \<and> calls (snd (emit example_handler identity_formatter all_ok idle_world (PInt 20) ''hello'')) =
       [SockClose, SockConnect (''10.0.0.1'', 514) UDP_MODE,
        SockSend (''<12>host1 hello'' @ [CHR 0x00])]"
proof -
  have fac: "facility example_handler = PInt 1
             \<or> (\<exists>k. facility example_handler = PStr k \<and> map_of facility_names k = Some 1)"
    by (simp add: example_handler_def LOG_USER_def)
  have fmt: "identity_formatter (PInt 20) ''hello'' = Inr ''hello''"
    by (simp add: identity_formatter_def)
  have cl: "close_result all_ok = None" and co: "connect_result all_ok = None"
    by (simp_all add: all_ok_def)
  have dec: "decimal 12 = ''12''"
    by (simp add: decimal_def digits.simps digit_char_def)
  show ?thesis
    using emit_integer_level_is_warning [where fmt = identity_formatter and w = idle_world, OF fac fmt cl co]
    by (auto simp add: LOG_WARNING_def dec example_handler_def idle_world_def LOG_USER_def)
qed

section \<open>Transport\<close>

text \<open>
  What \<open>emit\<close> does when one of close, connect and send raises, whichever is first. An
  exception that is not a \<open>RuntimeError\<close> leaves \<open>emit\<close> as it is and nothing more is
  written. A \<open>RuntimeError\<close> enters the handler: the banner and the original message are
  written, and the outcome of \<open>emit\<close> is the outcome of \<open>traceback.print_exception\<close>; the
  traceback is on the console only when that call returns.
\<close>

lemma emit_handler_outcome:
  assumes "fmt log_level message = Inr formatted"
    and "encodePriority (facility h) (PStr (mapPriority log_level)) = Inr n"
    and "close_result env = Some e
         \<or> (close_result env = None \<and> connect_result env = Some e)
         \<or> (close_result env = None \<and> connect_result env = None \<and> send_result env = Some e)"
  shows "fst (emit h fmt env w log_level message) =
           (if isinstance e ''RuntimeError'' then print_exception_result env else Some e)"
    and "console (snd (emit h fmt env w log_level message)) =
           console w @ [Print (''Received message: '' @ message),
                        Print (''Formatted message: '' @ formatted)]
           @ (if isinstance e ''RuntimeError''
              then [Print ''--- LOGGING ERROR ---'', Print (''With message: '' @ message)]
                   @ (case print_exception_result env of
                        None \<Rightarrow> [PrintException e]
                      | Some t \<Rightarrow> [])
              else [])"
proof -
  have reach: "emit h fmt env w log_level message =
         transport h env message
           (''<'' @ decimal n @ ''>'' @ (if ident h \<noteq> [] then ident h else []) @ formatted
              @ (if append_nul h then [CHR 0x00] else []))
           (print (''Formatted message: '' @ formatted) (print (''Received message: '' @ message) w))"
    by (rule emit_reaches_transport [where fmt = fmt, OF assms(1,2)])
  have raised: "fst (try_body h env bytes u) = Some e" for bytes u
    using assms(3) by (auto simp add: try_body_result)
  show "fst (emit h fmt env w log_level message) =
           (if isinstance e ''RuntimeError'' then print_exception_result env else Some e)"
    by (simp add: reach transport_result raised)
  show "console (snd (emit h fmt env w log_level message)) =
           console w @ [Print (''Received message: '' @ message),
                        Print (''Formatted message: '' @ formatted)]
           @ (if isinstance e ''RuntimeError''
              then [Print ''--- LOGGING ERROR ---'', Print (''With message: '' @ message)]
                   @ (case print_exception_result env of
                        None \<Rightarrow> [PrintException e]
                      | Some t \<Rightarrow> [])
              else [])"
    by (simp add: reach transport_console raised try_body_console print_fields)
qed

text \<open>
  With a \<open>print_exception\<close> that accepts the keyword call, a \<open>RuntimeError\<close> from connect or
  send is reported once, in full, and \<open>emit\<close> returns normally.
\<close>

lemma emit_failure_reported_if_traceback_returns:
  assumes "fmt log_level message = Inr formatted"
    and "encodePriority (facility h) (PStr (mapPriority log_level)) = Inr n"
    and "close_result env = None"
    and "connect_result env = Some e \<or> (connect_result env = None \<and> send_result env = Some e)"
    and "isinstance e ''RuntimeError''"
    and "print_exception_result env = None"
  shows "fst (emit h fmt env w log_level message) = None
         \<and> console (snd (emit h fmt env w log_level message)) =
             console w @ [Print (''Received message: '' @ message),
                          Print (''Formatted message: '' @ formatted),
                          Print ''--- LOGGING ERROR ---'',
                          Print (''With message: '' @ message),
                          PrintException e]"
proof -
  have first: "close_result env = Some e
         \<or> (close_result env = None \<and> connect_result env = Some e)
         \<or> (close_result env = None \<and> connect_result env = None \<and> send_result env = Some e)"
    using assms(3,4) by auto
  show ?thesis
    by (simp add: emit_handler_outcome [where fmt = fmt, OF assms(1,2) first] assms(5,6))
qed

text \<open>
  C4. The claim is that a \<open>RuntimeError\<close> from connect or send does not leave \<open>emit\<close>, and
  that the console receives one report with the original message and the error detail. The
  handler asks for the error detail with \<open>traceback.print_exception(etype=...)\<close>. Where
  the library rejects the keyword \<open>etype\<close>, a send that raises \<open>RuntimeError\<close> ends
  differently: \<open>emit\<close> raises the \<open>TypeError\<close> of the rejected call to its caller, and the
  report on the console stops after the message line, with no error detail.
\<close>

theorem emit_failure_report_raises:
  "emit example_handler identity_formatter
     (all_ok\<lparr>send_result := Some (RuntimeError ''Failed to send''),
             print_exception_result := Some etype_rejected\<rparr>)
     idle_world (PStr ''INFO'') ''hello'' =
   (Some etype_rejected,
    \<lparr>console = [Print ''Received message: hello'', Print ''Formatted message: hello'',
                Print ''--- LOGGING ERROR ---'', Print ''With message: hello''],
     conn = Connected,
     calls = [SockClose, SockConnect (''10.0.0.1'', 514) UDP_MODE,
              SockSend (''<14>host1 hello'' @ [CHR 0x00])]\<rparr>)"
  by (simp add: emit_def handler_format_def transport_def sock_defs print_def print_exception_def
      example_defs encodePriority_def subscript_def mapPriority_def priority_map_def
      priority_names_def LOG_USER_def LOG_INFO_def decimal_14 isinstance_def RuntimeError_def)

text \<open>
  C5, as stated, fails. The claim is that the connection is closed when \<open>emit\<close> returns.
  \<open>emit\<close> calls close, then connect, then send, and nothing after the send: on an idle
  socket where every call returns, the connection is left open and the last call made is
  the send.
\<close>

theorem emit_returns_connected:
  "conn (snd (emit example_handler identity_formatter all_ok idle_world (PStr ''INFO'') ''hello''))
     \<noteq> Idle
   \<and> calls (snd (emit example_handler identity_formatter all_ok idle_world (PStr ''INFO'') ''hello''))
     = [SockClose, SockConnect (''10.0.0.1'', 514) UDP_MODE,
        SockSend (''<14>host1 hello'' @ [CHR 0x00])]"
proof -
  have cl: "close_result all_ok = None" and co: "connect_result all_ok = None"
    by (simp_all add: all_ok_def)
  show ?thesis
    by (simp add: emit_reaches_transport [where fmt = identity_formatter, OF example_reaches]
        transport_conn transport_calls try_body_calls(1,2) [OF cl co] print_fields decimal_14)
      (simp add: example_handler_def idle_world_def)
qed

text \<open>
  C5, amended. Every \<open>emit\<close> that reaches the transport, on a socket whose \<open>close\<close> and
  \<open>connect\<close> return, makes exactly three calls in this order: close, connect, send of the
  payload. The close leaves the socket idle whatever its state was, so the connect is made
  from the idle state and no connection is reused; after the connect the socket is
  connected, and it still is when \<open>emit\<close> returns. The connection is closed by the next
  \<open>emit\<close>, not by this one.
\<close>

theorem emit_close_connect_send:
  assumes "fmt log_level message = Inr formatted"
    and "encodePriority (facility h) (PStr (mapPriority log_level)) = Inr n"
    and "close_result env = None" and "connect_result env = None"
  shows "calls (snd (emit h fmt env w log_level message)) =
           calls w @ [SockClose, SockConnect (socketaddr_out h) (conntype h),
                      SockSend (''<'' @ decimal n @ ''>''
                                @ (if ident h \<noteq> [] then ident h else []) @ formatted
                                @ (if append_nul h then [CHR 0x00] else []))]
         \<and> conn (snd (handler_close h env v)) = Idle
         \<and> conn (snd (emit h fmt env w log_level message)) = Connected"
proof -
  have reach: "emit h fmt env w log_level message =
         transport h env message
           (''<'' @ decimal n @ ''>'' @ (if ident h \<noteq> [] then ident h else []) @ formatted
              @ (if append_nul h then [CHR 0x00] else []))
           (print (''Formatted message: '' @ formatted) (print (''Received message: '' @ message) w))"
    by (rule emit_reaches_transport [where fmt = fmt, OF assms(1,2)])
  have "calls (snd (emit h fmt env w log_level message)) =
         calls w @ [SockClose, SockConnect (socketaddr_out h) (conntype h),
                    SockSend (''<'' @ decimal n @ ''>''
                              @ (if ident h \<noteq> [] then ident h else []) @ formatted
                              @ (if append_nul h then [CHR 0x00] else []))]"
    by (simp only: reach transport_calls try_body_calls(1) [OF assms(3,4)] print_fields)
  moreover have "conn (snd (handler_close h env v)) = Idle"
    by (simp add: handler_close_def sock_close_def assms(3))
  moreover have "conn (snd (emit h fmt env w log_level message)) = Connected"
    by (simp only: reach transport_conn try_body_calls(2) [OF assms(3,4)])
  ultimately show ?thesis
    by (intro conjI)
qed

theorem emit_close_connect_send_witness:
  "calls (snd (emit example_handler identity_formatter all_ok
                 (idle_world\<lparr>conn := Connected\<rparr>) (PStr ''INFO'') ''hello'')) =
     [SockClose, SockConnect (''10.0.0.1'', 514) UDP_MODE,
      SockSend (''<14>host1 hello'' @ [CHR 0x00])]
   \<and> conn (snd (handler_close example_handler all_ok (idle_world\<lparr>conn := Connected\<rparr>))) = Idle
   \<and> conn (snd (emit example_handler identity_formatter all_ok
                 (idle_world\<lparr>conn := Connected\<rparr>) (PStr ''INFO'') ''hello'')) = Connected"
proof -
  have cl: "close_result all_ok = None" and co: "connect_result all_ok = None"
    by (simp_all add: all_ok_def)
  show ?thesis
    using emit_close_connect_send [where fmt = identity_formatter and w = "idle_world\<lparr>conn := Connected\<rparr>"
        and v = "idle_world\<lparr>conn := Connected\<rparr>", OF example_reaches cl co]
    by (simp add: decimal_14 example_handler_def idle_world_def)
qed

text \<open>
  C6. The claim is that a \<open>RuntimeError\<close> raised by close, connect or send is caught and
  suppressed, and that every other kind of exception leaves \<open>emit\<close>. The second half holds
  (\<open>emit_handler_outcome\<close>). The first half needs the handler to finish: the \<open>RuntimeError\<close>
  is caught, but where the library rejects the keyword \<open>etype\<close> the handler raises
  \<open>TypeError\<close>, so a connect that raises \<open>RuntimeError\<close> is not suppressed: \<open>emit\<close> raises.
\<close>

theorem emit_RuntimeError_not_suppressed:
  "fst (emit example_handler identity_formatter
          (all_ok\<lparr>connect_result := Some (RuntimeError ''Failed to connect to host''),
                  print_exception_result := Some etype_rejected\<rparr>)
          idle_world (PStr ''INFO'') ''hello'') = Some etype_rejected
   \<and> \<not> isinstance etype_rejected ''RuntimeError''"
proof -
  let ?env = "all_ok\<lparr>connect_result := Some (RuntimeError ''Failed to connect to host''),
                     print_exception_result := Some etype_rejected\<rparr>"
  have first: "close_result ?env = Some (RuntimeError ''Failed to connect to host'')
         \<or> (close_result ?env = None
             \<and> connect_result ?env = Some (RuntimeError ''Failed to connect to host''))
         \<or> (close_result ?env = None \<and> connect_result ?env = None
             \<and> send_result ?env = Some (RuntimeError ''Failed to connect to host''))"
    by (simp add: all_ok_def)
  have "fst (emit example_handler identity_formatter ?env idle_world (PStr ''INFO'') ''hello'')
          = (if isinstance (RuntimeError ''Failed to connect to host'') ''RuntimeError''
             then print_exception_result ?env
             else Some (RuntimeError ''Failed to connect to host''))"
    by (rule emit_handler_outcome(1) [where fmt = identity_formatter, OF example_reaches first])
  then have "fst (emit example_handler identity_formatter ?env idle_world (PStr ''INFO'') ''hello'')
          = Some etype_rejected"
    by (simp add: isinstance_def RuntimeError_def)
  moreover have "\<not> isinstance etype_rejected ''RuntimeError''"
    by (simp add: isinstance_def etype_rejected_def TypeError_def)
  ultimately show ?thesis
    by (intro conjI)
qed

section \<open>Keyword lookup\<close>

text \<open>
  C7. \<open>mapPriority\<close> always returns a keyword: for a key of \<open>priority_map\<close> the keyword
  stored under it, for every other input \<open>warning\<close>. The keys are the five level names.
\<close>

theorem mapPriority_total:
  "((k, v) \<in> set priority_map \<longrightarrow> mapPriority k = v)
   \<and> (x \<notin> fst ` set priority_map \<longrightarrow> mapPriority x = ''warning'')
   \<and> fst ` set priority_map =
       {PStr ''DEBUG'', PStr ''INFO'', PStr ''WARNING'', PStr ''ERROR'', PStr ''CRITICAL''}"
  by (auto simp add: mapPriority_def priority_map_def)

theorem mapPriority_total_witness:
  "(PStr ''ERROR'', ''error'') \<in> set priority_map \<and> mapPriority (PStr ''ERROR'') = ''error''
   \<and> PStr ''TRACE'' \<notin> fst ` set priority_map \<and> mapPriority (PStr ''TRACE'') = ''warning''"
proof -
  have a: "(PStr ''ERROR'', ''error'') \<in> set priority_map"
    by (simp add: priority_map_def)
  have b: "PStr ''TRACE'' \<notin> fst ` set priority_map"
    by (simp add: priority_map_def)
  show ?thesis
    using a b mapPriority_total [of "PStr ''ERROR''" "''error''" "PStr ''TRACE''"] by simp
qed

text \<open>
  C8. A facility keyword that is not a key of \<open>facility_names\<close> makes \<open>encodePriority\<close>
  raise \<open>KeyError\<close>, a \<open>LookupError\<close>, whatever the priority is. A priority keyword that is
  not a key of \<open>priority_names\<close> makes it raise \<open>KeyError\<close> whenever the facility is an
  integer or a keyword of \<open>facility_names\<close>. There is no default in either place. The error
  is not caught on the way: an \<open>emit\<close> of a handler configured with an unknown facility
  keyword raises it to its caller.
\<close>

theorem encodePriority_unknown_keyword:
  "(k \<notin> fst ` set facility_names \<longrightarrow> encodePriority (PStr k) p = Inl (KeyError k))
   \<and> (q \<notin> fst ` set priority_names
        \<and> (fac = PInt f \<or> (\<exists>j. fac = PStr j \<and> j \<in> fst ` set facility_names))
        \<longrightarrow> encodePriority fac (PStr q) = Inl (KeyError q))
   \<and> isinstance (KeyError k) ''LookupError''
   \<and> (k \<notin> fst ` set facility_names \<and> facility h = PStr k \<and> fmt log_level message = Inr formatted
        \<longrightarrow> fst (emit h fmt env w log_level message) = Some (KeyError k))"
proof -
  have miss: "map_of d x = None" if "x \<notin> fst ` set d" for d :: "(string \<times> int) list" and x
    using that by (simp add: map_of_eq_None_iff)
  have hit: "\<exists>v. map_of d x = Some v" if "x \<in> fst ` set d" for d :: "(string \<times> int) list" and x
    using that by (cases "map_of d x") (simp_all add: map_of_eq_None_iff)
  have unknown_fac: "encodePriority (PStr k) p = Inl (KeyError k)"
    if "k \<notin> fst ` set facility_names" for p
    using miss [OF that] by (simp add: encodePriority_def subscript_def)
  have unknown_prio: "encodePriority fac (PStr q) = Inl (KeyError q)"
    if "q \<notin> fst ` set priority_names"
      and "fac = PInt f \<or> (\<exists>j. fac = PStr j \<and> j \<in> fst ` set facility_names)"
  proof -
    from that(2) obtain v
      where "(case fac of PStr s \<Rightarrow> subscript facility_names s | PInt n \<Rightarrow> Inr n) = Inr v"
    proof
      assume "fac = PInt f"
      then show ?thesis using that [of f] by simp
    next
      assume "\<exists>j. fac = PStr j \<and> j \<in> fst ` set facility_names"
      then obtain j where j: "fac = PStr j" "j \<in> fst ` set facility_names"
        by blast
      from hit [OF j(2)] obtain c where "map_of facility_names j = Some c"
        by blast
      with j(1) show ?thesis using that [of c] by (simp add: subscript_def)
    qed
    then show ?thesis
      using miss [OF that(1)] by (simp add: encodePriority_def subscript_def)
  qed
  have lookup: "isinstance (KeyError k) ''LookupError''"
    by (simp add: isinstance_def KeyError_def)
  have raised: "fst (emit h fmt env w log_level message) = Some (KeyError k)"
    if "k \<notin> fst ` set facility_names" and "facility h = PStr k"
      and "fmt log_level message = Inr formatted"
    using that(2,3) unknown_fac [OF that(1)]
    by (simp add: emit_def handler_format_def Let_def)
  show ?thesis
    using unknown_fac unknown_prio lookup raised by blast
qed

theorem encodePriority_unknown_keyword_witness:
  "''bogus_keyword'' \<notin> fst ` set facility_names
   \<and> encodePriority (PStr ''bogus_keyword'') (PStr ''info'') = Inl (KeyError ''bogus_keyword'')
   \<and> ''bogus'' \<notin> fst ` set priority_names
   \<and> ''user'' \<in> fst ` set facility_names
   \<and> encodePriority (PStr ''user'') (PStr ''bogus'') = Inl (KeyError ''bogus'')
   \<and> encodePriority (PInt 1) (PStr ''bogus'') = Inl (KeyError ''bogus'')
   \<and> fst (emit (example_handler\<lparr>facility := PStr ''bogus_keyword''\<rparr>) identity_formatter all_ok
            idle_world (PStr ''INFO'') ''hello'') = Some (KeyError ''bogus_keyword'')"
proof -
  have a: "''bogus_keyword'' \<notin> fst ` set facility_names"
    by (simp add: facility_names_def)
  have b: "''bogus'' \<notin> fst ` set priority_names"
    by (simp add: priority_names_def)
  have u: "''user'' \<in> fst ` set facility_names"
    by (simp add: facility_names_def)
  have c: "facility (example_handler\<lparr>facility := PStr ''bogus_keyword''\<rparr>) = PStr ''bogus_keyword''"
    by simp
  have d: "identity_formatter (PStr ''INFO'') ''hello'' = Inr ''hello''"
    by (simp add: identity_formatter_def)
  show ?thesis
    using a b c d u
      encodePriority_unknown_keyword [where k = "''bogus_keyword''" and q = "''bogus''" and f = 1
        and fac = "PStr ''user''"
        and p = "PStr ''info''" and h = "example_handler\<lparr>facility := PStr ''bogus_keyword''\<rparr>"
        and fmt = identity_formatter and log_level = "PStr ''INFO''" and message = "''hello''"
        and formatted = "''hello''" and env = all_ok and w = idle_world]
      encodePriority_unknown_keyword [where k = "''bogus_keyword''" and q = "''bogus''" and f = 1
        and fac = "PInt 1"
        and p = "PStr ''info''" and h = "example_handler\<lparr>facility := PStr ''bogus_keyword''\<rparr>"
        and fmt = identity_formatter and log_level = "PStr ''INFO''" and message = "''hello''"
        and formatted = "''hello''" and env = all_ok and w = idle_world]
    by blast
qed

text \<open>
  C9. \<open>encodePriority\<close> takes keywords and integers alike, in either position: a keyword
  is replaced by the code stored under it in \<open>facility_names\<close> or \<open>priority_names\<close>, an
  integer is taken as it is, and the result is \<open>(facility << 3) | priority\<close> of the two
  codes. In particular \<open>encodePriority("user", "info")\<close> and \<open>encodePriority(1, 6)\<close> are
  both 14.
\<close>

theorem encodePriority_keywords_and_integers:
  "(map_of facility_names k = Some f \<and> map_of priority_names q = Some s \<longrightarrow>
      encodePriority (PStr k) (PStr q) = Inr (push_bit 3 f OR s)
      \<and> encodePriority (PStr k) (PInt j) = Inr (push_bit 3 f OR j)
      \<and> encodePriority (PInt i) (PStr q) = Inr (push_bit 3 i OR s))
   \<and> encodePriority (PInt i) (PInt j) = Inr (push_bit 3 i OR j)
   \<and> encodePriority (PStr ''user'') (PStr ''info'') = Inr 14
   \<and> encodePriority (PInt 1) (PInt 6) = Inr 14"
  by (simp add: encodePriority_def subscript_def facility_names_def priority_names_def
      LOG_USER_def LOG_INFO_def)

theorem encodePriority_keywords_and_integers_witness:
  "map_of facility_names ''local7'' = Some 23 \<and> map_of priority_names ''debug'' = Some 7
   \<and> encodePriority (PStr ''local7'') (PStr ''debug'') = Inr 191
   \<and> encodePriority (PStr ''local7'') (PInt 3) = Inr 187
   \<and> encodePriority (PInt 2) (PStr ''debug'') = Inr 23
   \<and> encodePriority (PInt 2) (PInt 3) = Inr 19"
proof -
  have a: "map_of facility_names ''local7'' = Some 23"
    by (simp add: facility_names_def LOG_LOCAL7_def)
  have b: "map_of priority_names ''debug'' = Some 7"
    by (simp add: priority_names_def LOG_DEBUG_def)
  show ?thesis
    using a b encodePriority_keywords_and_integers [of "''local7''" 23 "''debug''" 7 3 2]
    by simp
qed

section \<open>Construction\<close>

text \<open>
  C10. Whenever the two library calls of \<open>__init__\<close> return, it builds a handler, and that
  handler uses the stream socket type and TCP mode exactly when a protocol was given and it
  is \<open>tcp\<close> in any mix of upper and lower case; with no protocol, or any other protocol
  string, it uses the datagram type and UDP mode. Whatever the protocol, a port left out
  is 514 and a facility left out is \<open>LOG_USER\<close> (1). Every handler that \<open>__init__\<close> returns
  is of this form.
\<close>

theorem init_transport_selection:
  "(socket_new ienv
      (if \<exists>p. protocol = Some p
            \<and> p \<in> {''tcp'', ''tcP'', ''tCp'', ''tCP'', ''Tcp'', ''TcP'', ''TCp'', ''TCP''}
       then SOCK_STREAM else SOCK_DGRAM) = None
    \<and> getaddrinfo ienv addr (case port_arg of None \<Rightarrow> 514 | Some n \<Rightarrow> n) = Inr sa
    \<longrightarrow> init ienv addr port_arg facility_arg protocol =
         Inr \<lparr>address = addr,
              port = (case port_arg of None \<Rightarrow> 514 | Some n \<Rightarrow> n),
              facility = (case facility_arg of None \<Rightarrow> PInt 1 | Some v \<Rightarrow> v),
              socktype =
                (if \<exists>p. protocol = Some p
                      \<and> p \<in> {''tcp'', ''tcP'', ''tCp'', ''tCP'', ''Tcp'', ''TcP'', ''TCp'', ''TCP''}
                 then SOCK_STREAM else SOCK_DGRAM),
              conntype =
                (if \<exists>p. protocol = Some p
                      \<and> p \<in> {''tcp'', ''tcP'', ''tCp'', ''tCP'', ''Tcp'', ''TcP'', ''TCp'', ''TCP''}
                 then TCP_MODE else UDP_MODE),
              socketaddr_out = sa, ident = [], append_nul = True\<rparr>)
   \<and> (init ienv addr port_arg facility_arg protocol = Inr h
      \<longrightarrow> (socktype h, conntype h) =
            (if \<exists>p. protocol = Some p
                  \<and> p \<in> {''tcp'', ''tcP'', ''tCp'', ''tCP'', ''Tcp'', ''TcP'', ''TCp'', ''TCP''}
             then (SOCK_STREAM, TCP_MODE) else (SOCK_DGRAM, UDP_MODE))
          \<and> port h = (case port_arg of None \<Rightarrow> 514 | Some n \<Rightarrow> n)
          \<and> facility h = (case facility_arg of None \<Rightarrow> PInt 1 | Some v \<Rightarrow> v))"
  unfolding lower_tcp_iff [symmetric]
  by (auto simp add: init_def Let_def SYSLOG_UDP_PORT_def LOG_USER_def
      split: option.splits sum.splits if_splits)

theorem init_transport_selection_witness:
  "init resolver_ok ''10.0.0.1'' None None None = Inr udp_handler
   \<and> init resolver_ok ''10.0.0.1'' None None (Some ''udp'') = Inr udp_handler
   \<and> init resolver_ok ''10.0.0.1'' None None (Some ''TcP'') = Inr tcp_handler
   \<and> (socktype udp_handler, conntype udp_handler) = (SOCK_DGRAM, UDP_MODE)
   \<and> (socktype tcp_handler, conntype tcp_handler) = (SOCK_STREAM, TCP_MODE)
   \<and> port udp_handler = 514 \<and> facility udp_handler = PInt 1
   \<and> port tcp_handler = 514 \<and> facility tcp_handler = PInt 1"
proof -
  have s: "socket_new resolver_ok t = None" for t
    by (simp add: resolver_ok_def)
  have g: "getaddrinfo resolver_ok ''10.0.0.1'' 514 = Inr (''10.0.0.1'', 514)"
    by (simp add: resolver_ok_def)
  have absent: "init resolver_ok ''10.0.0.1'' None None None = Inr udp_handler"
    using s g init_transport_selection [of resolver_ok None "''10.0.0.1''" None "(''10.0.0.1'', 514)" None]
    by (simp add: udp_handler_def)
  have other: "init resolver_ok ''10.0.0.1'' None None (Some ''udp'') = Inr udp_handler"
    using s g init_transport_selection [of resolver_ok "Some ''udp''" "''10.0.0.1''" None "(''10.0.0.1'', 514)" None]
    by (simp add: udp_handler_def)
  have tcp: "init resolver_ok ''10.0.0.1'' None None (Some ''TcP'') = Inr tcp_handler"
    using s g init_transport_selection [of resolver_ok "Some ''TcP''" "''10.0.0.1''" None "(''10.0.0.1'', 514)" None]
    by (simp add: tcp_handler_def)
  show ?thesis
    using absent other tcp
      init_transport_selection [of resolver_ok None "''10.0.0.1''" None "(''10.0.0.1'', 514)" None udp_handler]
      init_transport_selection [of resolver_ok "Some ''TcP''" "''10.0.0.1''" None "(''10.0.0.1'', 514)" None tcp_handler]
    by simp
qed

end
